theory Spec2Isabelle
  imports Complex_Main
begin

section \<open>JavaScript numbers\<close>

text \<open>
  Every numeric value of the program is a JavaScript \<^verbatim>\<open>number\<close>. The model keeps the
  special values of that type (\<open>NaN\<close>, \<open>+Infinity\<close>, \<open>-Infinity\<close>) and the way the
  operators propagate them, and takes the finite values to be exact reals: the sign of
  zero is outside the model (a zero divisor is read as \<open>+0\<close>), and so are rounding,
  overflow and underflow, except in \<open>normalize_vec\<close> and \<open>magnitude\<close>, whose results
  they decide and whose operations round to binary64.
\<close>

datatype jsnum = Fin real | PInf | NInf | NaN

instantiation jsnum :: "{plus, minus, uminus, times, inverse, modulo, ord}"
begin

fun uminus_jsnum :: "jsnum \<Rightarrow> jsnum" where
  "uminus_jsnum (Fin a) = Fin (- a)"
| "uminus_jsnum PInf = NInf"
| "uminus_jsnum NInf = PInf"
| "uminus_jsnum NaN = NaN"

fun plus_jsnum :: "jsnum \<Rightarrow> jsnum \<Rightarrow> jsnum" where
  "plus_jsnum NaN b = NaN"
| "plus_jsnum a NaN = NaN"
| "plus_jsnum (Fin a) (Fin b) = Fin (a + b)"
| "plus_jsnum PInf NInf = NaN"
| "plus_jsnum NInf PInf = NaN"
| "plus_jsnum PInf b = PInf"
| "plus_jsnum a PInf = PInf"
| "plus_jsnum NInf b = NInf"
| "plus_jsnum a NInf = NInf"

definition minus_jsnum :: "jsnum \<Rightarrow> jsnum \<Rightarrow> jsnum" where
  "minus_jsnum a b = a + (- b)"

fun times_jsnum :: "jsnum \<Rightarrow> jsnum \<Rightarrow> jsnum" where
  "times_jsnum NaN b = NaN"
| "times_jsnum a NaN = NaN"
| "times_jsnum (Fin a) (Fin b) = Fin (a * b)"
| "times_jsnum (Fin a) PInf = (if a = 0 then NaN else if 0 < a then PInf else NInf)"
| "times_jsnum (Fin a) NInf = (if a = 0 then NaN else if 0 < a then NInf else PInf)"
| "times_jsnum PInf (Fin b) = (if b = 0 then NaN else if 0 < b then PInf else NInf)"
| "times_jsnum NInf (Fin b) = (if b = 0 then NaN else if 0 < b then NInf else PInf)"
| "times_jsnum PInf PInf = PInf"
| "times_jsnum PInf NInf = NInf"
| "times_jsnum NInf PInf = NInf"
| "times_jsnum NInf NInf = PInf"

fun divide_jsnum :: "jsnum \<Rightarrow> jsnum \<Rightarrow> jsnum" where
  "divide_jsnum NaN b = NaN"
| "divide_jsnum a NaN = NaN"
| "divide_jsnum (Fin a) (Fin b) =
     (if b = 0 then (if a = 0 then NaN else if 0 < a then PInf else NInf)
      else Fin (a / b))"
| "divide_jsnum (Fin a) PInf = Fin 0"
| "divide_jsnum (Fin a) NInf = Fin 0"
| "divide_jsnum PInf (Fin b) = (if 0 \<le> b then PInf else NInf)"
| "divide_jsnum NInf (Fin b) = (if 0 \<le> b then NInf else PInf)"
| "divide_jsnum a b = NaN"

definition inverse_jsnum :: "jsnum \<Rightarrow> jsnum" where
  "inverse_jsnum a = divide (Fin 1) a"

text \<open>The remainder operator \<^verbatim>\<open>%\<close>: the quotient is truncated towards zero, so the
  result has the sign of the dividend.\<close>

fun modulo_jsnum :: "jsnum \<Rightarrow> jsnum \<Rightarrow> jsnum" where
  "modulo_jsnum (Fin a) (Fin b) =
     (if b = 0 then NaN
      else Fin (a - b * (if 0 \<le> a / b then of_int \<lfloor>a / b\<rfloor> else of_int \<lceil>a / b\<rceil>)))"
| "modulo_jsnum (Fin a) PInf = Fin a"
| "modulo_jsnum (Fin a) NInf = Fin a"
| "modulo_jsnum a b = NaN"

fun less_jsnum :: "jsnum \<Rightarrow> jsnum \<Rightarrow> bool" where
  "less_jsnum NaN b = False"
| "less_jsnum a NaN = False"
| "less_jsnum (Fin a) (Fin b) = (a < b)"
| "less_jsnum a NInf = False"
| "less_jsnum PInf b = False"
| "less_jsnum a b = True"

fun less_eq_jsnum :: "jsnum \<Rightarrow> jsnum \<Rightarrow> bool" where
  "less_eq_jsnum NaN b = False"
| "less_eq_jsnum a NaN = False"
| "less_eq_jsnum (Fin a) (Fin b) = (a \<le> b)"
| "less_eq_jsnum NInf b = True"
| "less_eq_jsnum a PInf = True"
| "less_eq_jsnum a b = False"

instance ..

end

text \<open>Strict equality \<^verbatim>\<open>===\<close> on numbers: \<open>NaN\<close> is equal to nothing.\<close>

fun js_eq :: "jsnum \<Rightarrow> jsnum \<Rightarrow> bool" where
  "js_eq NaN b = False"
| "js_eq a NaN = False"
| "js_eq a b = (a = b)"

text \<open>The truth value of a number in a condition: zero and \<open>NaN\<close> are false.\<close>

fun js_truthy :: "jsnum \<Rightarrow> bool" where
  "js_truthy (Fin a) = (if a = 0 then False else True)"
| "js_truthy NaN = False"
| "js_truthy a = True"

fun Math_sqrt :: "jsnum \<Rightarrow> jsnum" where
  "Math_sqrt (Fin a) = (if a < 0 then NaN else Fin (sqrt a))"
| "Math_sqrt PInf = PInf"
| "Math_sqrt a = NaN"

fun Math_min :: "jsnum \<Rightarrow> jsnum \<Rightarrow> jsnum" where
  "Math_min NaN b = NaN"
| "Math_min a NaN = NaN"
| "Math_min a b = (if a \<le> b then a else b)"

text \<open>\<^verbatim>\<open>a ** 2\<close>.\<close>

definition js_pow2 :: "jsnum \<Rightarrow> jsnum" where
  "js_pow2 a = a * a"

text \<open>
  Rounding a real to the nearest binary64 value, ties to even. The spacing of the
  binary64 values around a magnitude \<open>a\<close> is \<open>2^-1074\<close> below the smallest normal number
  \<open>2^-1022\<close>, and 2 to the power \<open>floor (log2 a) - 52\<close> from there on; the magnitude is
  rounded to the nearest multiple of that spacing. A magnitude of at least
  \<open>2^1024 - 2^970\<close> rounds to an infinity. \<open>binary64\<close> rounds a finite number and leaves
  \<open>NaN\<close> and the infinities as they are.
\<close>

definition round_ties_even :: "real \<Rightarrow> int" where
  "round_ties_even q =
     (let f = \<lfloor>q\<rfloor>; d = q - of_int f
      in if d < 1 / 2 then f
         else if 1 / 2 < d then f + 1
         else if even f then f else f + 1)"

definition binary64_ulp :: "real \<Rightarrow> real" where
  "binary64_ulp a =
     (if a < 1 / 2 ^ 1022 then 1 / 2 ^ 1074
      else 2 powr (of_int \<lfloor>log 2 a\<rfloor> - 52))"

definition binary64_round :: "real \<Rightarrow> jsnum" where
  "binary64_round r =
     (let a = \<bar>r\<bar>
      in if 2 ^ 1024 - 2 ^ 970 \<le> a then (if 0 < r then PInf else NInf)
         else (let u = binary64_ulp a;
                   v = of_int (round_ties_even (a / u)) * u
               in Fin (if 0 < r then v else - v)))"

fun binary64 :: "jsnum \<Rightarrow> jsnum" where
  "binary64 (Fin r) = binary64_round r"
| "binary64 a = a"

section \<open>Curve mathematics\<close>

record Point =
  x :: jsnum
  y :: jsnum

definition bezierPoint :: "Point \<Rightarrow> Point \<Rightarrow> Point \<Rightarrow> Point \<Rightarrow> jsnum \<Rightarrow> Point" where
  "bezierPoint p0 p1 p2 p3 t =
     (let mt = Fin 1 - t;
          mt2 = mt * mt;
          mt3 = mt2 * mt;
          t2 = t * t;
          t3 = t2 * t
      in \<lparr> x = mt3 * x p0 + Fin 3 * mt2 * t * x p1 + Fin 3 * mt * t2 * x p2 + t3 * x p3,
           y = mt3 * y p0 + Fin 3 * mt2 * t * y p1 + Fin 3 * mt * t2 * y p2 + t3 * y p3 \<rparr>)"

definition bezierTangent :: "Point \<Rightarrow> Point \<Rightarrow> Point \<Rightarrow> Point \<Rightarrow> jsnum \<Rightarrow> Point" where
  "bezierTangent p0 p1 p2 p3 t =
     (let mt = Fin 1 - t;
          mt2 = mt * mt;
          t2 = t * t
      in \<lparr> x = Fin 3 * mt2 * (x p1 - x p0) + Fin 6 * mt * t * (x p2 - x p1)
               + Fin 3 * t2 * (x p3 - x p2),
           y = Fin 3 * mt2 * (y p1 - y p0) + Fin 6 * mt * t * (y p2 - y p1)
               + Fin 3 * t2 * (y p3 - y p2) \<rparr>)"

text \<open>
  The source's \<^verbatim>\<open>normalize\<close>; HOL already has a constant of that name. Here and in
  \<open>magnitude\<close> every multiplication, addition, square root and division is followed by
  the rounding to binary64 that the program's arithmetic performs (the square root is
  taken to be correctly rounded): the squares of a finite coordinate can overflow to
  \<open>Infinity\<close> or underflow to 0, and that decides what these two functions return.
\<close>

definition normalize_vec :: "Point \<Rightarrow> Point" where
  "normalize_vec v =
     (let len = binary64 (Math_sqrt
                  (binary64 (binary64 (x v * x v) + binary64 (y v * y v))))
      in if js_eq len (Fin 0) then \<lparr> x = Fin 0, y = Fin 0 \<rparr>
         else \<lparr> x = binary64 (x v / len), y = binary64 (y v / len) \<rparr>)"


text \<open>
  The sampling loop \<^verbatim>\<open>for (let i = 0; i <= steps; i++)\<close>. The counter takes the values
  0, 1, 2, ...; \<open>steps\<close> is any number, and with \<open>steps = Infinity\<close> the loop does not
  end, so the result is an option and not returning is \<open>None\<close>. The default values of
  \<open>steps\<close> (100) and \<open>count\<close> (10) are for calls that leave the argument out; here the
  argument is always given.
\<close>

partial_function (option) sampleBezierCurve_loop ::
  "Point \<Rightarrow> Point \<Rightarrow> Point \<Rightarrow> Point \<Rightarrow> jsnum \<Rightarrow> nat \<Rightarrow> Point list \<Rightarrow> Point list option" where
  "sampleBezierCurve_loop p0 p1 p2 p3 steps i points =
     (if Fin (real i) \<le> steps
      then sampleBezierCurve_loop p0 p1 p2 p3 steps (Suc i)
             (points @ [bezierPoint p0 p1 p2 p3 (Fin (real i) / steps)])
      else Some points)"

definition sampleBezierCurve ::
  "Point \<Rightarrow> Point \<Rightarrow> Point \<Rightarrow> Point \<Rightarrow> jsnum \<Rightarrow> Point list option" where
  "sampleBezierCurve p0 p1 p2 p3 steps = sampleBezierCurve_loop p0 p1 p2 p3 steps 0 []"

record TangentData =
  point :: Point
  tangent :: Point
  normalizedTangent :: Point

partial_function (option) sampleTangents_loop ::
  "Point \<Rightarrow> Point \<Rightarrow> Point \<Rightarrow> Point \<Rightarrow> jsnum \<Rightarrow> nat \<Rightarrow> TangentData list
     \<Rightarrow> TangentData list option" where
  "sampleTangents_loop p0 p1 p2 p3 count i tangents =
     (if Fin (real i) \<le> count
      then sampleTangents_loop p0 p1 p2 p3 count (Suc i)
             (tangents @
                [(let t = Fin (real i) / count;
                      point = bezierPoint p0 p1 p2 p3 t;
                      tangent = bezierTangent p0 p1 p2 p3 t;
                      normalizedTangent = normalize_vec tangent
                  in \<lparr> point = point, tangent = tangent,
                       normalizedTangent = normalizedTangent \<rparr>)])
      else Some tangents)"

definition sampleTangents ::
  "Point \<Rightarrow> Point \<Rightarrow> Point \<Rightarrow> Point \<Rightarrow> jsnum \<Rightarrow> TangentData list option" where
  "sampleTangents p0 p1 p2 p3 count = sampleTangents_loop p0 p1 p2 p3 count 0 []"

section \<open>Spring physics\<close>

record SpringState =
  position :: Point
  velocity :: Point
  target :: Point

record SpringConfig =
  stiffness :: jsnum
  damping :: jsnum

definition DEFAULT_SPRING_CONFIG :: SpringConfig where
  "DEFAULT_SPRING_CONFIG = \<lparr> stiffness = Fin 120, damping = Fin 12 \<rparr>"

definition createSpringState :: "Point \<Rightarrow> SpringState" where
  "createSpringState initialPosition =
     \<lparr> position = \<lparr> x = x initialPosition, y = y initialPosition \<rparr>,
       velocity = \<lparr> x = Fin 0, y = Fin 0 \<rparr>,
       target = \<lparr> x = x initialPosition, y = y initialPosition \<rparr> \<rparr>"

definition updateSpring :: "SpringState \<Rightarrow> SpringConfig \<Rightarrow> jsnum \<Rightarrow> SpringState" where
  "updateSpring state config deltaTime =
     (let displacementX = x (position state) - x (target state);
          displacementY = y (position state) - y (target state);
          accelerationX = (- stiffness config) * displacementX
                            - damping config * x (velocity state);
          accelerationY = (- stiffness config) * displacementY
                            - damping config * y (velocity state);
          newVelocity = \<lparr> x = x (velocity state) + accelerationX * deltaTime,
                          y = y (velocity state) + accelerationY * deltaTime \<rparr>;
          newPosition = \<lparr> x = x (position state) + x newVelocity * deltaTime,
                          y = y (position state) + y newVelocity * deltaTime \<rparr>
      in \<lparr> position = newPosition, velocity = newVelocity, target = target state \<rparr>)"

definition setSpringTarget :: "SpringState \<Rightarrow> Point \<Rightarrow> SpringState" where
  "setSpringTarget state tgt = state \<lparr> target := \<lparr> x = x tgt, y = y tgt \<rparr> \<rparr>"

definition applyImpulse :: "SpringState \<Rightarrow> Point \<Rightarrow> SpringState" where
  "applyImpulse state impulse =
     state \<lparr> velocity := \<lparr> x = x (velocity state) + x impulse,
                            y = y (velocity state) + y impulse \<rparr> \<rparr>"

definition isSettled :: "SpringState \<Rightarrow> jsnum \<Rightarrow> bool" where
  "isSettled state threshold =
     (let velocityMagnitude =
            Math_sqrt (js_pow2 (x (velocity state)) + js_pow2 (y (velocity state)));
          displacement =
            Math_sqrt (js_pow2 (x (position state) - x (target state))
                       + js_pow2 (y (position state) - y (target state)))
      in velocityMagnitude < threshold \<and> displacement < threshold)"

section \<open>The canvas component\<close>

text \<open>
  The mutable references of the component are the fields of one state record, with the
  names they have in the source. The bounding rectangle of the container is an argument
  (\<open>None\<close> when the container reference is still null), and so is the presence of the
  canvas and its drawing context.
\<close>

record DOMRect =
  rect_left :: jsnum
  rect_top :: jsnum
  rect_width :: jsnum
  rect_height :: jsnum

record BezierCanvas =
  lastTimeRef :: jsnum
  lastRenderTimeRef :: jsnum
  p0Ref :: Point
  p3Ref :: Point
  spring1Ref :: "SpringState option"
  spring2Ref :: "SpringState option"
  baseP1Ref :: Point
  baseP2Ref :: Point
  fps :: jsnum
  fpsCountRef :: jsnum
  fpsTimeRef :: jsnum
  frameIntervalRef :: jsnum

text \<open>The values the references are created with, for a given \<open>targetFps\<close>.\<close>

definition initialState :: "jsnum \<Rightarrow> BezierCanvas" where
  "initialState targetFps =
     \<lparr> lastTimeRef = Fin 0,
       lastRenderTimeRef = Fin 0,
       p0Ref = \<lparr> x = Fin 0, y = Fin 0 \<rparr>,
       p3Ref = \<lparr> x = Fin 0, y = Fin 0 \<rparr>,
       spring1Ref = None,
       spring2Ref = None,
       baseP1Ref = \<lparr> x = Fin 0, y = Fin 0 \<rparr>,
       baseP2Ref = \<lparr> x = Fin 0, y = Fin 0 \<rparr>,
       fps = Fin 0,
       fpsCountRef = Fin 0,
       fpsTimeRef = Fin 0,
       frameIntervalRef = Fin 1000 / targetFps \<rparr>"

definition initializePositions :: "BezierCanvas \<Rightarrow> jsnum \<Rightarrow> jsnum \<Rightarrow> BezierCanvas" where
  "initializePositions s w h =
     (let margin = Fin 100;
          centerY = h / Fin 2;
          p0 = \<lparr> x = margin, y = centerY \<rparr>;
          p3 = \<lparr> x = w - margin, y = centerY \<rparr>;
          third = (w - Fin 2 * margin) / Fin 3;
          baseP1 = \<lparr> x = margin + third, y = centerY - Fin 150 \<rparr>;
          baseP2 = \<lparr> x = margin + Fin 2 * third, y = centerY + Fin 150 \<rparr>
      in s \<lparr> p0Ref := p0, p3Ref := p3, baseP1Ref := baseP1, baseP2Ref := baseP2,
             spring1Ref := Some (createSpringState baseP1),
             spring2Ref := Some (createSpringState baseP2) \<rparr>)"

definition handleResize :: "BezierCanvas \<Rightarrow> bool \<Rightarrow> DOMRect option \<Rightarrow> BezierCanvas" where
  "handleResize s canvas container =
     (if canvas
      then (case container of
              None \<Rightarrow> s
            | Some rect \<Rightarrow> initializePositions s (rect_width rect) (rect_height rect))
      else s)"

definition getDistance :: "Point \<Rightarrow> Point \<Rightarrow> jsnum" where
  "getDistance p1 p2 = Math_sqrt (js_pow2 (x p1 - x p2) + js_pow2 (y p1 - y p2))"

definition handlePointerMove ::
  "BezierCanvas \<Rightarrow> DOMRect option \<Rightarrow> jsnum \<Rightarrow> jsnum \<Rightarrow> BezierCanvas" where
  "handlePointerMove s container clientX clientY =
     (case container of
        None \<Rightarrow> s
      | Some rect \<Rightarrow>
          (case spring1Ref s of
             None \<Rightarrow> s
           | Some spring1 \<Rightarrow>
               (case spring2Ref s of
                  None \<Rightarrow> s
                | Some spring2 \<Rightarrow>
                    (let mousePos = \<lparr> x = clientX - rect_left rect,
                                       y = clientY - rect_top rect \<rparr>;
                         p1Pos = position spring1;
                         p2Pos = position spring2;
                         distToP1 = getDistance mousePos p1Pos;
                         distToP2 = getDistance mousePos p2Pos;
                         centerX = rect_width rect / Fin 2;
                         centerY = rect_height rect / Fin 2;
                         sensitivity = Fin 0.3;
                         offset = \<lparr> x = (clientX - rect_left rect - centerX) * sensitivity,
                                     y = (clientY - rect_top rect - centerY) * sensitivity \<rparr>
                     in if distToP1 < distToP2
                        then s \<lparr> spring1Ref := Some (setSpringTarget spring1
                                     \<lparr> x = x (baseP1Ref s) + x offset * Fin 0.8,
                                       y = y (baseP1Ref s) + y offset * Fin 1.2 \<rparr>),
                                 spring2Ref := Some (setSpringTarget spring2 (baseP2Ref s)) \<rparr>
                        else s \<lparr> spring2Ref := Some (setSpringTarget spring2
                                     \<lparr> x = x (baseP2Ref s) + x offset * Fin 0.8,
                                       y = y (baseP2Ref s) + y offset * Fin 0.8 \<rparr>),
                                 spring1Ref := Some (setSpringTarget spring1 (baseP1Ref s)) \<rparr>))))"

text \<open>
  One call of the animation callback. The callback re-arms itself first, whatever
  happens next; that is the host's scheduling and leaves no trace in the state. The
  result is the new state and, when the tick fires, the frame that is drawn: the time
  step given to the integrator and the four control points given to the drawing calls.
\<close>

record frame =
  frame_dt :: jsnum
  frame_p0 :: Point
  frame_p1 :: Point
  frame_p2 :: Point
  frame_p3 :: Point

definition animate :: "BezierCanvas \<Rightarrow> bool \<Rightarrow> jsnum \<Rightarrow> BezierCanvas \<times> frame option" where
  "animate s ctx timestamp =
     (if ctx
      then (case spring1Ref s of
              None \<Rightarrow> (s, None)
            | Some spring1 \<Rightarrow>
                (case spring2Ref s of
                   None \<Rightarrow> (s, None)
                 | Some spring2 \<Rightarrow>
                     (let elapsed = timestamp - lastRenderTimeRef s
                      in if elapsed < frameIntervalRef s then (s, None)
                         else
                           (let lastRenderTime = timestamp - (elapsed mod frameIntervalRef s);
                                deltaTime = (if js_truthy (lastTimeRef s)
                                             then (timestamp - lastTimeRef s) / Fin 1000
                                             else Fin 0.016);
                                dt = Math_min deltaTime (Fin 0.033);
                                fpsCount = fpsCountRef s + Fin 1;
                                window = (Fin 1000 \<le> timestamp - fpsTimeRef s);
                                new1 = updateSpring spring1 DEFAULT_SPRING_CONFIG dt;
                                new2 = updateSpring spring2 DEFAULT_SPRING_CONFIG dt
                            in (s \<lparr> lastRenderTimeRef := lastRenderTime,
                                     lastTimeRef := timestamp,
                                     fps := (if window then fpsCount else fps s),
                                     fpsCountRef := (if window then Fin 0 else fpsCount),
                                     fpsTimeRef := (if window then timestamp else fpsTimeRef s),
                                     spring1Ref := Some new1,
                                     spring2Ref := Some new2 \<rparr>,
                                Some \<lparr> frame_dt = dt,
                                       frame_p0 = p0Ref s,
                                       frame_p1 = position new1,
                                       frame_p2 = position new2,
                                       frame_p3 = p3Ref s \<rparr>)))))
      else (s, None))"

text \<open>
  Drawing is a sequence of calls on the 2D context; a drawing function returns the calls
  it makes, in order.
\<close>

datatype ctx_op =
    SetStrokeStyle string
  | SetFillStyle string
  | SetLineWidth jsnum
  | SetLineCap string
  | BeginPath
  | MoveTo jsnum jsnum
  | LineTo jsnum jsnum
  | Stroke
  | Arc jsnum jsnum jsnum jsnum jsnum
  | Fill

definition COLORS_tangent :: string where
  "COLORS_tangent = ''hsl(185, 40%, 45%)''"

definition drawTangent :: "jsnum \<Rightarrow> TangentData \<Rightarrow> ctx_op list" where
  "drawTangent tangentLength td =
     [ BeginPath,
       MoveTo (x (point td)) (y (point td)),
       LineTo (x (point td) + x (normalizedTangent td) * tangentLength)
              (y (point td) + y (normalizedTangent td) * tangentLength),
       Stroke,
       SetFillStyle COLORS_tangent,
       BeginPath,
       Arc (x (point td)) (y (point td)) (Fin 3) (Fin 0) (Fin pi * Fin 2),
       Fill ]"

definition drawTangents :: "Point \<Rightarrow> Point \<Rightarrow> Point \<Rightarrow> Point \<Rightarrow> ctx_op list option" where
  "drawTangents p0 p1 p2 p3 =
     (case sampleTangents p0 p1 p2 p3 (Fin 8) of
        None \<Rightarrow> None
      | Some tangents \<Rightarrow>
          (let tangentLength = Fin 80
           in Some ([ SetStrokeStyle COLORS_tangent, SetLineWidth (Fin 2), SetLineCap ''round'' ]
                    @ concat (map (drawTangent tangentLength) tangents))))"

section \<open>Reference notions used in the statements\<close>

text \<open>
  Straight-line interpolation between two points, as the specification names it: the
  point \<open>(1 - t) p + t q\<close>. It is not a function of the program.
\<close>

definition lerp :: "Point \<Rightarrow> Point \<Rightarrow> jsnum \<Rightarrow> Point" where
  "lerp p q t = \<lparr> x = (Fin 1 - t) * x p + t * x q, y = (Fin 1 - t) * y p + t * y q \<rparr>"

text \<open>
  A run of the animation callback over a list of signal timestamps, with the canvas
  present: the state is threaded through the calls, and the result lists, for every
  tick that fired, its timestamp and the time step it gave to the integrator.
\<close>

fun run_ticks :: "BezierCanvas \<Rightarrow> jsnum list \<Rightarrow> (jsnum \<times> jsnum) list" where
  "run_ticks s [] = []"
| "run_ticks s (t # ts) =
     (case animate s True t of
        (s', None) \<Rightarrow> run_ticks s' ts
      | (s', Some f) \<Rightarrow> (t, frame_dt f) # run_ticks s' ts)"

section \<open>Arithmetic on finite numbers and on NaN\<close>

lemma minus_Fin [simp]: "Fin a - Fin b = Fin (a - b)"
  by (simp add: minus_jsnum_def)

lemma plus_NaN [simp]: "a + NaN = NaN" "NaN + a = NaN"
  by (cases a; simp)+

lemma times_NaN [simp]: "a * NaN = NaN" "NaN * a = NaN"
  by (cases a; simp)+

lemma minus_NaN [simp]: "a - NaN = NaN" "NaN - a = NaN"
  by (cases a; simp add: minus_jsnum_def)+

section \<open>The integrator step\<close>

text \<open>
  C1. For every spring state, configuration and time step, \<open>updateSpring\<close> computes the
  acceleration \<open>-stiffness * (position - target) - damping * velocity\<close> in each
  coordinate, sets the new velocity to \<open>v + a * dt\<close>, sets the new position to
  \<open>p + v' * dt\<close> with the new velocity \<open>v'\<close>, and returns the target it was given. The
  second half states the same step on finite numbers as one expression over the reals.
\<close>

theorem updateSpring_semi_implicit_euler:
  "velocity (updateSpring s c dt) =
      \<lparr> x = x (velocity s)
             + ((- stiffness c) * (x (position s) - x (target s))
                 - damping c * x (velocity s)) * dt,
        y = y (velocity s)
             + ((- stiffness c) * (y (position s) - y (target s))
                 - damping c * y (velocity s)) * dt \<rparr>
   \<and> position (updateSpring s c dt) =
      \<lparr> x = x (position s) + x (velocity (updateSpring s c dt)) * dt,
        y = y (position s) + y (velocity (updateSpring s c dt)) * dt \<rparr>
   \<and> target (updateSpring s c dt) = target s
   \<and> updateSpring
        \<lparr> position = \<lparr> x = Fin px, y = Fin py \<rparr>,
          velocity = \<lparr> x = Fin vx, y = Fin vy \<rparr>,
          target = \<lparr> x = Fin gx, y = Fin gy \<rparr> \<rparr>
        \<lparr> stiffness = Fin k, damping = Fin d \<rparr> (Fin h) =
      \<lparr> position = \<lparr> x = Fin (px + (vx + (- k * (px - gx) - d * vx) * h) * h),
                       y = Fin (py + (vy + (- k * (py - gy) - d * vy) * h) * h) \<rparr>,
        velocity = \<lparr> x = Fin (vx + (- k * (px - gx) - d * vx) * h),
                       y = Fin (vy + (- k * (py - gy) - d * vy) * h) \<rparr>,
        target = \<lparr> x = Fin gx, y = Fin gy \<rparr> \<rparr>"
  by (simp add: updateSpring_def Let_def)

section \<open>Curve evaluation\<close>

lemma bezierPoint_Fin:
  "bezierPoint \<lparr>x = Fin a0, y = Fin b0\<rparr> \<lparr>x = Fin a1, y = Fin b1\<rparr>
     \<lparr>x = Fin a2, y = Fin b2\<rparr> \<lparr>x = Fin a3, y = Fin b3\<rparr> (Fin t) =
   \<lparr>x = Fin ((1 - t)^3 * a0 + 3 * (1 - t)^2 * t * a1 + 3 * (1 - t) * t^2 * a2 + t^3 * a3),
    y = Fin ((1 - t)^3 * b0 + 3 * (1 - t)^2 * t * b1 + 3 * (1 - t) * t^2 * b2 + t^3 * b3)\<rparr>"
  by (simp add: bezierPoint_def Let_def power2_eq_square power3_eq_cube)

text \<open>
  C4. For all finite control points, the curve evaluated at parameter 0 is the first
  control point and the curve evaluated at parameter 1 is the last one, exactly.
\<close>

theorem bezierPoint_endpoints:
  "bezierPoint \<lparr>x = Fin a0, y = Fin b0\<rparr> \<lparr>x = Fin a1, y = Fin b1\<rparr>
     \<lparr>x = Fin a2, y = Fin b2\<rparr> \<lparr>x = Fin a3, y = Fin b3\<rparr> (Fin 0)
     = \<lparr>x = Fin a0, y = Fin b0\<rparr>
   \<and> bezierPoint \<lparr>x = Fin a0, y = Fin b0\<rparr> \<lparr>x = Fin a1, y = Fin b1\<rparr>
     \<lparr>x = Fin a2, y = Fin b2\<rparr> \<lparr>x = Fin a3, y = Fin b3\<rparr> (Fin 1)
     = \<lparr>x = Fin a3, y = Fin b3\<rparr>"
  by (simp add: bezierPoint_def)

section \<open>Sampling with a step count of zero\<close>

text \<open>
  C10. With \<open>steps = 0\<close> the only parameter value is \<open>0 / 0\<close>, which is \<open>NaN\<close>:
  \<open>sampleBezierCurve\<close> returns one point whose two coordinates are \<open>NaN\<close>, whatever the
  control points, and so not the list holding the (finite) first control point; with
  \<open>count = 0\<close>, \<open>sampleTangents\<close> returns one sample whose point, tangent and normalized
  tangent all have \<open>NaN\<close> coordinates.
\<close>

theorem sampling_zero_steps_is_NaN:
  "sampleBezierCurve p0 p1 p2 p3 (Fin 0) = Some [\<lparr>x = NaN, y = NaN\<rparr>]
   \<and> sampleBezierCurve \<lparr>x = Fin a0, y = Fin b0\<rparr> p1 p2 p3 (Fin 0)
       \<noteq> Some [\<lparr>x = Fin a0, y = Fin b0\<rparr>]
   \<and> sampleTangents p0 p1 p2 p3 (Fin 0) =
       Some [\<lparr> point = \<lparr>x = NaN, y = NaN\<rparr>,
                tangent = \<lparr>x = NaN, y = NaN\<rparr>,
                normalizedTangent = \<lparr>x = NaN, y = NaN\<rparr> \<rparr>]"
  by (simp add: sampleBezierCurve_def sampleBezierCurve_loop.simps
        sampleTangents_def sampleTangents_loop.simps
        bezierPoint_def bezierTangent_def normalize_vec_def Let_def)

section \<open>Sampling the curve\<close>

lemma sampleBezierCurve_loop_finite:
  "i \<le> Suc n \<Longrightarrow>
   sampleBezierCurve_loop p0 p1 p2 p3 (Fin (real n)) i acc =
     Some (acc @ map (\<lambda>k. bezierPoint p0 p1 p2 p3 (Fin (real k) / Fin (real n))) [i..<Suc n])"
proof (induction "Suc n - i" arbitrary: i acc)
  case 0
  then have "i = Suc n" by simp
  then show ?case
    by (subst sampleBezierCurve_loop.simps) simp
next
  case (Suc d)
  let ?f = "\<lambda>k. bezierPoint p0 p1 p2 p3 (Fin (real k) / Fin (real n))"
  from Suc have le: "i \<le> n" and d: "d = Suc n - Suc i" by simp_all
  have "sampleBezierCurve_loop p0 p1 p2 p3 (Fin (real n)) i acc =
        sampleBezierCurve_loop p0 p1 p2 p3 (Fin (real n)) (Suc i) (acc @ [?f i])"
    using le by (subst sampleBezierCurve_loop.simps) simp
  also have "\<dots> = Some ((acc @ [?f i]) @ map ?f [Suc i..<Suc n])"
    using Suc.hyps(1)[OF d] le by simp
  also have "\<dots> = Some (acc @ map ?f [i..<Suc n])"
    using le by (simp add: upt_conv_Cons del: upt_Suc)
  finally show ?case .
qed

lemma sampleBezierCurve_finite:
  "sampleBezierCurve p0 p1 p2 p3 (Fin (real n)) =
     Some (map (\<lambda>k. bezierPoint p0 p1 p2 p3 (Fin (real k) / Fin (real n))) [0..<Suc n])"
  using sampleBezierCurve_loop_finite[of 0 n p0 p1 p2 p3 "[]"]
  by (simp add: sampleBezierCurve_def)

text \<open>
  C5. For every whole number of steps \<open>n \<ge> 1\<close> and all finite control points,
  \<open>sampleBezierCurve\<close> returns, and what it returns is the list of the curve points at
  the parameters \<open>0/n, 1/n, ..., n/n\<close> in this order: \<open>n + 1\<close> points, the first equal
  to the first control point and the last equal to the last control point.
\<close>

theorem sampleBezierCurve_steps:
  assumes "1 \<le> n"
  shows "sampleBezierCurve \<lparr>x = Fin a0, y = Fin b0\<rparr> \<lparr>x = Fin a1, y = Fin b1\<rparr>
        \<lparr>x = Fin a2, y = Fin b2\<rparr> \<lparr>x = Fin a3, y = Fin b3\<rparr> (Fin (real n)) =
       Some (map (\<lambda>k. bezierPoint \<lparr>x = Fin a0, y = Fin b0\<rparr> \<lparr>x = Fin a1, y = Fin b1\<rparr>
        \<lparr>x = Fin a2, y = Fin b2\<rparr> \<lparr>x = Fin a3, y = Fin b3\<rparr> (Fin (real k / real n))) [0..<n + 1])
     \<and> length (the (sampleBezierCurve \<lparr>x = Fin a0, y = Fin b0\<rparr> \<lparr>x = Fin a1, y = Fin b1\<rparr>
        \<lparr>x = Fin a2, y = Fin b2\<rparr> \<lparr>x = Fin a3, y = Fin b3\<rparr> (Fin (real n)))) = n + 1
     \<and> hd (the (sampleBezierCurve \<lparr>x = Fin a0, y = Fin b0\<rparr> \<lparr>x = Fin a1, y = Fin b1\<rparr>
        \<lparr>x = Fin a2, y = Fin b2\<rparr> \<lparr>x = Fin a3, y = Fin b3\<rparr> (Fin (real n)))) = \<lparr>x = Fin a0, y = Fin b0\<rparr>
     \<and> last (the (sampleBezierCurve \<lparr>x = Fin a0, y = Fin b0\<rparr> \<lparr>x = Fin a1, y = Fin b1\<rparr>
        \<lparr>x = Fin a2, y = Fin b2\<rparr> \<lparr>x = Fin a3, y = Fin b3\<rparr> (Fin (real n)))) = \<lparr>x = Fin a3, y = Fin b3\<rparr>"
proof -
  let ?f = "\<lambda>k. bezierPoint \<lparr>x = Fin a0, y = Fin b0\<rparr> \<lparr>x = Fin a1, y = Fin b1\<rparr>
        \<lparr>x = Fin a2, y = Fin b2\<rparr> \<lparr>x = Fin a3, y = Fin b3\<rparr> (Fin (real k / real n))"
  have n0: "real n \<noteq> 0" using assms by simp
  have eq: "sampleBezierCurve \<lparr>x = Fin a0, y = Fin b0\<rparr> \<lparr>x = Fin a1, y = Fin b1\<rparr>
        \<lparr>x = Fin a2, y = Fin b2\<rparr> \<lparr>x = Fin a3, y = Fin b3\<rparr> (Fin (real n)) = Some (map ?f [0..<n + 1])"
    using n0 by (simp add: sampleBezierCurve_finite)
  have first: "hd (map ?f [0..<n + 1]) = \<lparr>x = Fin a0, y = Fin b0\<rparr>"
    by (simp add: upt_conv_Cons bezierPoint_def del: upt_Suc)
  have "last (map ?f [0..<n + 1]) = ?f n" by simp
  then have final: "last (map ?f [0..<n + 1]) = \<lparr>x = Fin a3, y = Fin b3\<rparr>"
    using n0 by (simp add: bezierPoint_def)
  show ?thesis
    unfolding eq option.sel using first final by simp
qed

theorem sampleBezierCurve_steps_witness:
  "sampleBezierCurve \<lparr>x = Fin 100, y = Fin 300\<rparr> \<lparr>x = Fin 300, y = Fin 150\<rparr>
        \<lparr>x = Fin 500, y = Fin 450\<rparr> \<lparr>x = Fin 700, y = Fin 300\<rparr> (Fin 2) =
       Some [\<lparr>x = Fin 100, y = Fin 300\<rparr>, \<lparr>x = Fin 400, y = Fin 300\<rparr>,
             \<lparr>x = Fin 700, y = Fin 300\<rparr>]
   \<and> length (the (sampleBezierCurve \<lparr>x = Fin 100, y = Fin 300\<rparr> \<lparr>x = Fin 300, y = Fin 150\<rparr>
        \<lparr>x = Fin 500, y = Fin 450\<rparr> \<lparr>x = Fin 700, y = Fin 300\<rparr> (Fin 2))) = 3"
proof -
  have h: "1 \<le> (2::nat)" by simp
  have u: "[0..<2 + 1] = [0, 1, 2::nat]" by (simp add: upt_rec)
  from sampleBezierCurve_steps[OF h, of 100 300 300 150 500 450 700 300]
  show ?thesis unfolding u by (simp add: bezierPoint_Fin power2_eq_square power3_eq_cube)
qed

section \<open>Unit vectors\<close>


























section \<open>Coincident control points\<close>

lemma smoothstep_bounds:
  fixes t :: real
  assumes "0 \<le> t" "t \<le> 1"
  shows "0 \<le> 3 * t^2 - 2 * t^3" "3 * t^2 - 2 * t^3 \<le> 1"
proof -
  have a: "3 * t^2 - 2 * t^3 = t^2 * (3 - 2 * t)"
    by (simp add: algebra_simps power2_eq_square power3_eq_cube)
  have "0 \<le> t^2 * (3 - 2 * t)" using assms by (intro mult_nonneg_nonneg) simp_all
  then show "0 \<le> 3 * t^2 - 2 * t^3" using a by simp
  have b: "1 - (3 * t^2 - 2 * t^3) = (1 - t)^2 * (1 + 2 * t)"
    by (simp add: algebra_simps power2_eq_square power3_eq_cube)
  have "0 \<le> (1 - t)^2 * (1 + 2 * t)" using assms by (intro mult_nonneg_nonneg) simp_all
  then show "3 * t^2 - 2 * t^3 \<le> 1" using b by linarith
qed

text \<open>
  C8, as stated, fails: with \<open>P1 = P0 = (0, 0)\<close> and \<open>P2 = P3 = (64, 0)\<close> the curve at
  \<open>t = 1/4\<close> is \<open>(10, 0)\<close>, and the straight-line interpolation between \<open>P0\<close> and \<open>P3\<close>
  at \<open>t = 1/4\<close> is \<open>(16, 0)\<close>.
\<close>

theorem bezierPoint_coincident_not_lerp:
  "bezierPoint \<lparr>x = Fin 0, y = Fin 0\<rparr> \<lparr>x = Fin 0, y = Fin 0\<rparr>
     \<lparr>x = Fin 64, y = Fin 0\<rparr> \<lparr>x = Fin 64, y = Fin 0\<rparr> (Fin (1 / 4))
   \<noteq> lerp \<lparr>x = Fin 0, y = Fin 0\<rparr> \<lparr>x = Fin 64, y = Fin 0\<rparr> (Fin (1 / 4))"
  by (simp add: bezierPoint_Fin lerp_def power2_eq_square power3_eq_cube)

text \<open>
  C8, amended. For all \<open>t\<close> in \<open>[0, 1]\<close> and finite points with \<open>P1 = P0\<close> and
  \<open>P2 = P3\<close>, the curve point at \<open>t\<close> is the straight-line interpolation between \<open>P0\<close>
  and \<open>P3\<close> at the parameter \<open>3 t\<^sup>2 - 2 t\<^sup>3\<close>, which lies in \<open>[0, 1]\<close>: the point is on
  the segment from \<open>P0\<close> to \<open>P3\<close>, but not at the fraction \<open>t\<close> of it.
\<close>

theorem bezierPoint_coincident_on_segment:
  assumes "0 \<le> t" "t \<le> 1"
  shows "bezierPoint \<lparr>x = Fin a0, y = Fin b0\<rparr> \<lparr>x = Fin a0, y = Fin b0\<rparr>
           \<lparr>x = Fin a3, y = Fin b3\<rparr> \<lparr>x = Fin a3, y = Fin b3\<rparr> (Fin t)
         = lerp \<lparr>x = Fin a0, y = Fin b0\<rparr> \<lparr>x = Fin a3, y = Fin b3\<rparr> (Fin (3 * t^2 - 2 * t^3))
       \<and> 0 \<le> 3 * t^2 - 2 * t^3 \<and> 3 * t^2 - 2 * t^3 \<le> 1"
proof -
  have "bezierPoint \<lparr>x = Fin a0, y = Fin b0\<rparr> \<lparr>x = Fin a0, y = Fin b0\<rparr>
           \<lparr>x = Fin a3, y = Fin b3\<rparr> \<lparr>x = Fin a3, y = Fin b3\<rparr> (Fin t)
         = lerp \<lparr>x = Fin a0, y = Fin b0\<rparr> \<lparr>x = Fin a3, y = Fin b3\<rparr> (Fin (3 * t^2 - 2 * t^3))"
    by (simp add: bezierPoint_Fin lerp_def algebra_simps power2_eq_square power3_eq_cube)
  then show ?thesis using smoothstep_bounds[OF assms] by simp
qed

theorem bezierPoint_coincident_on_segment_witness:
  "bezierPoint \<lparr>x = Fin 0, y = Fin 0\<rparr> \<lparr>x = Fin 0, y = Fin 0\<rparr>
     \<lparr>x = Fin 64, y = Fin 0\<rparr> \<lparr>x = Fin 64, y = Fin 0\<rparr> (Fin (1 / 4))
   = lerp \<lparr>x = Fin 0, y = Fin 0\<rparr> \<lparr>x = Fin 64, y = Fin 0\<rparr> (Fin (5 / 32))"
proof -
  have h: "(0::real) \<le> 1 / 4" "(1::real) / 4 \<le> 1" by simp_all
  from bezierPoint_coincident_on_segment[OF h, of 0 0 64 0]
  show ?thesis by (simp add: power2_eq_square power3_eq_cube)
qed

section \<open>Tangent samples and their drawing\<close>

lemma sampleTangents_loop_finite:
  "i \<le> Suc n \<Longrightarrow>
   sampleTangents_loop p0 p1 p2 p3 (Fin (real n)) i acc =
     Some (acc @ map (\<lambda>k. \<lparr> point = bezierPoint p0 p1 p2 p3 (Fin (real k) / Fin (real n)),
                             tangent = bezierTangent p0 p1 p2 p3 (Fin (real k) / Fin (real n)),
                             normalizedTangent =
                               normalize_vec
                                 (bezierTangent p0 p1 p2 p3 (Fin (real k) / Fin (real n))) \<rparr>)
                      [i..<Suc n])"
proof (induction "Suc n - i" arbitrary: i acc)
  case 0
  then have "i = Suc n" by simp
  then show ?case
    by (subst sampleTangents_loop.simps) simp
next
  case (Suc d)
  let ?f = "\<lambda>k. \<lparr> point = bezierPoint p0 p1 p2 p3 (Fin (real k) / Fin (real n)),
                   tangent = bezierTangent p0 p1 p2 p3 (Fin (real k) / Fin (real n)),
                   normalizedTangent =
                     normalize_vec (bezierTangent p0 p1 p2 p3 (Fin (real k) / Fin (real n))) \<rparr>"
  from Suc have le: "i \<le> n" and d: "d = Suc n - Suc i" by simp_all
  have "sampleTangents_loop p0 p1 p2 p3 (Fin (real n)) i acc =
        sampleTangents_loop p0 p1 p2 p3 (Fin (real n)) (Suc i) (acc @ [?f i])"
    using le by (subst sampleTangents_loop.simps) (simp add: Let_def)
  also have "\<dots> = Some ((acc @ [?f i]) @ map ?f [Suc i..<Suc n])"
    using Suc.hyps(1)[OF d] le by simp
  also have "\<dots> = Some (acc @ map ?f [i..<Suc n])"
    using le by (simp add: upt_conv_Cons del: upt_Suc)
  finally show ?case .
qed

lemma sampleTangents_finite:
  "sampleTangents p0 p1 p2 p3 (Fin (real n)) =
     Some (map (\<lambda>k. \<lparr> point = bezierPoint p0 p1 p2 p3 (Fin (real k) / Fin (real n)),
                       tangent = bezierTangent p0 p1 p2 p3 (Fin (real k) / Fin (real n)),
                       normalizedTangent =
                         normalize_vec
                           (bezierTangent p0 p1 p2 p3 (Fin (real k) / Fin (real n))) \<rparr>)
                [0..<Suc n])"
  using sampleTangents_loop_finite[of 0 n p0 p1 p2 p3 "[]"]
  by (simp add: sampleTangents_def)

lemma upt_0_9: "[0..<Suc 8] = [0, 1, 2, 3, 4, 5, 6, 7, 8]"
  by (simp add: upt_rec)

lemma sampleTangents_8:
  "sampleTangents p0 p1 p2 p3 (Fin 8) =
     Some (map (\<lambda>k. \<lparr> point = bezierPoint p0 p1 p2 p3 (Fin (real k / 8)),
                       tangent = bezierTangent p0 p1 p2 p3 (Fin (real k / 8)),
                       normalizedTangent =
                         normalize_vec (bezierTangent p0 p1 p2 p3 (Fin (real k / 8))) \<rparr>)
                [0, 1, 2, 3, 4, 5, 6, 7, 8])"
  using sampleTangents_finite[of p0 p1 p2 p3 8] unfolding upt_0_9 by simp

lemma drawTangents_8:
  "drawTangents p0 p1 p2 p3 =
     Some ([ SetStrokeStyle COLORS_tangent, SetLineWidth (Fin 2), SetLineCap ''round'' ] @
       concat (map (\<lambda>k. drawTangent (Fin 80)
                 \<lparr> point = bezierPoint p0 p1 p2 p3 (Fin (real k / 8)),
                   tangent = bezierTangent p0 p1 p2 p3 (Fin (real k / 8)),
                   normalizedTangent =
                     normalize_vec (bezierTangent p0 p1 p2 p3 (Fin (real k / 8))) \<rparr>)
               [0, 1, 2, 3, 4, 5, 6, 7, 8]))"
  unfolding drawTangents_def sampleTangents_8 by (simp add: Let_def)

text \<open>
  C9, as stated, fails: for the control points of an 800 by 600 surface at rest, the
  tangent samples that are drawn are 9, not 8, and so are the strokes.
\<close>

theorem drawTangents_not_eight:
  "drawTangents \<lparr>x = Fin 100, y = Fin 300\<rparr> \<lparr>x = Fin 300, y = Fin 150\<rparr>
        \<lparr>x = Fin 500, y = Fin 450\<rparr> \<lparr>x = Fin 700, y = Fin 300\<rparr> \<noteq> None
   \<and> length (the (sampleTangents \<lparr>x = Fin 100, y = Fin 300\<rparr> \<lparr>x = Fin 300, y = Fin 150\<rparr>
        \<lparr>x = Fin 500, y = Fin 450\<rparr> \<lparr>x = Fin 700, y = Fin 300\<rparr> (Fin 8))) \<noteq> 8
   \<and> count_list (the (drawTangents \<lparr>x = Fin 100, y = Fin 300\<rparr> \<lparr>x = Fin 300, y = Fin 150\<rparr>
        \<lparr>x = Fin 500, y = Fin 450\<rparr> \<lparr>x = Fin 700, y = Fin 300\<rparr>)) Stroke \<noteq> 8"
  unfolding drawTangents_8 sampleTangents_8 by (simp add: drawTangent_def)

text \<open>
  C9, amended. For a whole number \<open>count\<close>, \<open>sampleTangents\<close> returns the point, the raw
  tangent and the normalized tangent at the \<open>count + 1\<close> parameters \<open>0/count, ...,
  count/count\<close>, in this order. The rendering calls it with \<open>count = 8\<close> and draws every
  sample: a tangent line and a marker at each of the 9 parameters \<open>0/8, 1/8, ..., 8/8\<close>,
  that is 9 strokes.
\<close>

theorem drawTangents_nine_samples:
  "sampleTangents p0 p1 p2 p3 (Fin (real count)) =
     Some (map (\<lambda>k. \<lparr> point = bezierPoint p0 p1 p2 p3 (Fin (real k) / Fin (real count)),
                       tangent = bezierTangent p0 p1 p2 p3 (Fin (real k) / Fin (real count)),
                       normalizedTangent =
                         normalize_vec
                           (bezierTangent p0 p1 p2 p3 (Fin (real k) / Fin (real count))) \<rparr>)
                [0..<count + 1])
   \<and> drawTangents p0 p1 p2 p3 =
     Some ([ SetStrokeStyle COLORS_tangent, SetLineWidth (Fin 2), SetLineCap ''round'' ] @
       concat (map (\<lambda>k. drawTangent (Fin 80)
                 \<lparr> point = bezierPoint p0 p1 p2 p3 (Fin (real k / 8)),
                   tangent = bezierTangent p0 p1 p2 p3 (Fin (real k / 8)),
                   normalizedTangent =
                     normalize_vec (bezierTangent p0 p1 p2 p3 (Fin (real k / 8))) \<rparr>)
               [0, 1, 2, 3, 4, 5, 6, 7, 8]))
   \<and> count_list (the (drawTangents p0 p1 p2 p3)) Stroke = 9"
proof (intro conjI)
  show "count_list (the (drawTangents p0 p1 p2 p3)) Stroke = 9"
    unfolding drawTangents_8 by (simp add: drawTangent_def)
qed (simp_all add: sampleTangents_finite drawTangents_8)

section \<open>Pointer updates\<close>

lemma less_jsnum_irrefl: "\<not> (a::jsnum) < a"
  by (cases a) simp_all

lemma less_jsnum_asym: "(a::jsnum) < b \<Longrightarrow> \<not> b < a"
  by (cases a; cases b) simp_all

lemma setSpringTarget_eq: "setSpringTarget st p = st \<lparr> target := p \<rparr>"
  by (simp add: setSpringTarget_def)

lemma getDistance_Fin:
  "getDistance \<lparr>x = Fin a, y = Fin b\<rparr> \<lparr>x = Fin c, y = Fin d\<rparr>
     = Fin (sqrt ((a - c)^2 + (b - d)^2))"
proof -
  have "\<not> (a - c) * (a - c) + (b - d) * (b - d) < 0"
    using zero_le_square[of "a - c"] zero_le_square[of "b - d"] by linarith
  then show ?thesis
    by (simp add: getDistance_def js_pow2_def power2_eq_square)
qed

lemma handlePointerMove_P1:
  assumes "spring1Ref s = Some spring1" "spring2Ref s = Some spring2"
    and "getDistance \<lparr> x = clientX - rect_left rect, y = clientY - rect_top rect \<rparr>
           (position spring1)
         < getDistance \<lparr> x = clientX - rect_left rect, y = clientY - rect_top rect \<rparr>
           (position spring2)"
  shows "handlePointerMove s (Some rect) clientX clientY =
     s \<lparr> spring1Ref := Some (spring1 \<lparr> target :=
             \<lparr> x = x (baseP1Ref s)
                   + (clientX - rect_left rect - rect_width rect / Fin 2) * Fin 0.3 * Fin 0.8,
               y = y (baseP1Ref s)
                   + (clientY - rect_top rect - rect_height rect / Fin 2) * Fin 0.3 * Fin 1.2 \<rparr> \<rparr>),
         spring2Ref := Some (spring2 \<lparr> target := baseP2Ref s \<rparr>) \<rparr>"
  using assms by (simp add: handlePointerMove_def Let_def setSpringTarget_eq)

lemma handlePointerMove_P2:
  assumes "spring1Ref s = Some spring1" "spring2Ref s = Some spring2"
    and "\<not> getDistance \<lparr> x = clientX - rect_left rect, y = clientY - rect_top rect \<rparr>
           (position spring1)
         < getDistance \<lparr> x = clientX - rect_left rect, y = clientY - rect_top rect \<rparr>
           (position spring2)"
  shows "handlePointerMove s (Some rect) clientX clientY =
     s \<lparr> spring2Ref := Some (spring2 \<lparr> target :=
             \<lparr> x = x (baseP2Ref s)
                   + (clientX - rect_left rect - rect_width rect / Fin 2) * Fin 0.3 * Fin 0.8,
               y = y (baseP2Ref s)
                   + (clientY - rect_top rect - rect_height rect / Fin 2) * Fin 0.3 * Fin 0.8 \<rparr> \<rparr>),
         spring1Ref := Some (spring1 \<lparr> target := baseP1Ref s \<rparr>) \<rparr>"
  using assms by (simp add: handlePointerMove_def Let_def setSpringTarget_eq)

text \<open>
  C3. On a pointer update with both springs present, let \<open>d1\<close> and \<open>d2\<close> be the
  distances from the pointer (in surface coordinates) to the current positions of the
  two springs, and let \<open>offset\<close> be the pointer's displacement from the centre of the
  surface times 0.3. If \<open>d1 < d2\<close>, the first spring gets the target
  \<open>baseP1 + (0.8 * offset.x, 1.2 * offset.y)\<close> and the second gets \<open>baseP2\<close>; if
  \<open>d2 < d1\<close>, and also if \<open>d1 = d2\<close>, the second spring gets the target
  \<open>baseP2 + (0.8 * offset.x, 0.8 * offset.y)\<close> and the first gets \<open>baseP1\<close>: ties go to
  the second point. Positions and velocities are not touched. On finite points the
  distance is the Euclidean one.
\<close>

theorem handlePointerMove_nearest:
  assumes "spring1Ref s = Some spring1" and "spring2Ref s = Some spring2"
  shows
    "(let mousePos = \<lparr> x = clientX - rect_left rect, y = clientY - rect_top rect \<rparr>;
          d1 = getDistance mousePos (position spring1);
          d2 = getDistance mousePos (position spring2);
          offset = \<lparr> x = (clientX - rect_left rect - rect_width rect / Fin 2) * Fin 0.3,
                      y = (clientY - rect_top rect - rect_height rect / Fin 2) * Fin 0.3 \<rparr>;
          moveP1 = s \<lparr> spring1Ref := Some (spring1 \<lparr> target :=
                           \<lparr> x = x (baseP1Ref s) + x offset * Fin 0.8,
                             y = y (baseP1Ref s) + y offset * Fin 1.2 \<rparr> \<rparr>),
                       spring2Ref := Some (spring2 \<lparr> target := baseP2Ref s \<rparr>) \<rparr>;
          moveP2 = s \<lparr> spring2Ref := Some (spring2 \<lparr> target :=
                           \<lparr> x = x (baseP2Ref s) + x offset * Fin 0.8,
                             y = y (baseP2Ref s) + y offset * Fin 0.8 \<rparr> \<rparr>),
                       spring1Ref := Some (spring1 \<lparr> target := baseP1Ref s \<rparr>) \<rparr>
      in (d1 < d2 \<longrightarrow> handlePointerMove s (Some rect) clientX clientY = moveP1)
       \<and> (d2 < d1 \<longrightarrow> handlePointerMove s (Some rect) clientX clientY = moveP2)
       \<and> (d1 = d2 \<longrightarrow> handlePointerMove s (Some rect) clientX clientY = moveP2)
       \<and> (\<not> d1 < d2 \<longrightarrow> handlePointerMove s (Some rect) clientX clientY = moveP2))
     \<and> getDistance \<lparr>x = Fin a, y = Fin b\<rparr> \<lparr>x = Fin c, y = Fin d\<rparr>
         = Fin (sqrt ((a - c)^2 + (b - d)^2))"
proof -
  let ?m = "\<lparr> x = clientX - rect_left rect, y = clientY - rect_top rect \<rparr>"
  let ?d1 = "getDistance ?m (position spring1)"
  let ?d2 = "getDistance ?m (position spring2)"
  have asym: "?d2 < ?d1 \<Longrightarrow> \<not> ?d1 < ?d2" by (rule less_jsnum_asym)
  have tie: "?d1 = ?d2 \<Longrightarrow> \<not> ?d1 < ?d2" by (simp add: less_jsnum_irrefl)
  show ?thesis
    using handlePointerMove_P1[OF assms, of clientX rect clientY]
      handlePointerMove_P2[OF assms, of clientX rect clientY] asym tie
    by (simp add: Let_def getDistance_Fin)
qed

theorem handlePointerMove_nearest_witness:
  "(let S = \<lparr> lastTimeRef = Fin 0, lastRenderTimeRef = Fin 0,
               p0Ref = \<lparr>x = Fin 100, y = Fin 300\<rparr>, p3Ref = \<lparr>x = Fin 700, y = Fin 300\<rparr>,
               spring1Ref = Some \<lparr> position = \<lparr>x = Fin 300, y = Fin 300\<rparr>,
                                    velocity = \<lparr>x = Fin 0, y = Fin 0\<rparr>,
                                    target = \<lparr>x = Fin 300, y = Fin 150\<rparr> \<rparr>,
               spring2Ref = Some \<lparr> position = \<lparr>x = Fin 500, y = Fin 300\<rparr>,
                                    velocity = \<lparr>x = Fin 0, y = Fin 0\<rparr>,
                                    target = \<lparr>x = Fin 500, y = Fin 450\<rparr> \<rparr>,
               baseP1Ref = \<lparr>x = Fin 300, y = Fin 150\<rparr>,
               baseP2Ref = \<lparr>x = Fin 500, y = Fin 450\<rparr>,
               fps = Fin 0, fpsCountRef = Fin 0, fpsTimeRef = Fin 0,
               frameIntervalRef = Fin (50 / 3) \<rparr>;
        R = \<lparr> rect_left = Fin 0, rect_top = Fin 0, rect_width = Fin 800, rect_height = Fin 600 \<rparr>
    in handlePointerMove S (Some R) (Fin 400) (Fin 200) =
         S \<lparr> spring2Ref := Some \<lparr> position = \<lparr>x = Fin 500, y = Fin 300\<rparr>,
                                   velocity = \<lparr>x = Fin 0, y = Fin 0\<rparr>,
                                   target = \<lparr>x = Fin 500, y = Fin 426\<rparr> \<rparr>,
             spring1Ref := Some \<lparr> position = \<lparr>x = Fin 300, y = Fin 300\<rparr>,
                                   velocity = \<lparr>x = Fin 0, y = Fin 0\<rparr>,
                                   target = \<lparr>x = Fin 300, y = Fin 150\<rparr> \<rparr> \<rparr>)"
proof -
  let ?s1 = "\<lparr> position = \<lparr>x = Fin 300, y = Fin 300\<rparr>, velocity = \<lparr>x = Fin 0, y = Fin 0\<rparr>,
               target = \<lparr>x = Fin 300, y = Fin 150\<rparr> \<rparr>"
  let ?s2 = "\<lparr> position = \<lparr>x = Fin 500, y = Fin 300\<rparr>, velocity = \<lparr>x = Fin 0, y = Fin 0\<rparr>,
               target = \<lparr>x = Fin 500, y = Fin 450\<rparr> \<rparr>"
  let ?S = "\<lparr> lastTimeRef = Fin 0, lastRenderTimeRef = Fin 0,
               p0Ref = \<lparr>x = Fin 100, y = Fin 300\<rparr>, p3Ref = \<lparr>x = Fin 700, y = Fin 300\<rparr>,
               spring1Ref = Some ?s1, spring2Ref = Some ?s2,
               baseP1Ref = \<lparr>x = Fin 300, y = Fin 150\<rparr>,
               baseP2Ref = \<lparr>x = Fin 500, y = Fin 450\<rparr>,
               fps = Fin 0, fpsCountRef = Fin 0, fpsTimeRef = Fin 0,
               frameIntervalRef = Fin (50 / 3) \<rparr>"
  let ?R = "\<lparr> rect_left = Fin 0, rect_top = Fin 0, rect_width = Fin 800, rect_height = Fin 600 \<rparr>"
  have h1: "spring1Ref ?S = Some ?s1" and h2: "spring2Ref ?S = Some ?s2" by simp_all
  have tie: "getDistance \<lparr> x = Fin 400 - rect_left ?R, y = Fin 200 - rect_top ?R \<rparr> (position ?s1)
           = getDistance \<lparr> x = Fin 400 - rect_left ?R, y = Fin 200 - rect_top ?R \<rparr> (position ?s2)"
    by (simp add: getDistance_Fin)
  from handlePointerMove_nearest[OF h1 h2, of "Fin 400" ?R "Fin 200"] tie
  have "handlePointerMove ?S (Some ?R) (Fin 400) (Fin 200) =
     ?S \<lparr> spring2Ref := Some (?s2 \<lparr> target :=
             \<lparr> x = x (baseP2Ref ?S)
                  + x \<lparr> x = (Fin 400 - rect_left ?R - rect_width ?R / Fin 2) * Fin 0.3,
                        y = (Fin 200 - rect_top ?R - rect_height ?R / Fin 2) * Fin 0.3 \<rparr> * Fin 0.8,
               y = y (baseP2Ref ?S)
                  + y \<lparr> x = (Fin 400 - rect_left ?R - rect_width ?R / Fin 2) * Fin 0.3,
                        y = (Fin 200 - rect_top ?R - rect_height ?R / Fin 2) * Fin 0.3 \<rparr> * Fin 0.8 \<rparr> \<rparr>),
         spring1Ref := Some (?s1 \<lparr> target := baseP1Ref ?S \<rparr>) \<rparr>"
    unfolding Let_def by blast
  then show ?thesis by (simp add: Let_def)
qed

section \<open>End points and resize\<close>

text \<open>
  C7. A pointer update and a call of the animation callback leave both end points as
  they are, whatever their arguments. A resize with the canvas and the container present
  sets every spring to position = target = its new base position and velocity
  \<open>(0, 0)\<close>, whatever the springs were before; for a finite surface of width \<open>w\<close> and
  height \<open>h\<close> the end points become \<open>(100, h/2)\<close> and \<open>(w - 100, h/2)\<close> and the base
  positions \<open>(100 + (w - 200)/3, h/2 - 150)\<close> and \<open>(100 + 2 (w - 200)/3, h/2 + 150)\<close>.
\<close>

theorem endpoints_fixed_resize_resets:
  "p0Ref (handlePointerMove s container clientX clientY) = p0Ref s
   \<and> p3Ref (handlePointerMove s container clientX clientY) = p3Ref s
   \<and> p0Ref (fst (animate s ctx timestamp)) = p0Ref s
   \<and> p3Ref (fst (animate s ctx timestamp)) = p3Ref s
   \<and> spring1Ref (handleResize s True (Some rect)) =
       Some \<lparr> position = baseP1Ref (handleResize s True (Some rect)),
              velocity = \<lparr> x = Fin 0, y = Fin 0 \<rparr>,
              target = baseP1Ref (handleResize s True (Some rect)) \<rparr>
   \<and> spring2Ref (handleResize s True (Some rect)) =
       Some \<lparr> position = baseP2Ref (handleResize s True (Some rect)),
              velocity = \<lparr> x = Fin 0, y = Fin 0 \<rparr>,
              target = baseP2Ref (handleResize s True (Some rect)) \<rparr>
   \<and> handleResize s True
        (Some \<lparr> rect_left = l, rect_top = tp, rect_width = Fin w, rect_height = Fin h \<rparr>) =
       s \<lparr> p0Ref := \<lparr> x = Fin 100, y = Fin (h / 2) \<rparr>,
           p3Ref := \<lparr> x = Fin (w - 100), y = Fin (h / 2) \<rparr>,
           baseP1Ref := \<lparr> x = Fin (100 + (w - 200) / 3), y = Fin (h / 2 - 150) \<rparr>,
           baseP2Ref := \<lparr> x = Fin (100 + 2 * ((w - 200) / 3)), y = Fin (h / 2 + 150) \<rparr>,
           spring1Ref := Some
             \<lparr> position = \<lparr> x = Fin (100 + (w - 200) / 3), y = Fin (h / 2 - 150) \<rparr>,
               velocity = \<lparr> x = Fin 0, y = Fin 0 \<rparr>,
               target = \<lparr> x = Fin (100 + (w - 200) / 3), y = Fin (h / 2 - 150) \<rparr> \<rparr>,
           spring2Ref := Some
             \<lparr> position = \<lparr> x = Fin (100 + 2 * ((w - 200) / 3)), y = Fin (h / 2 + 150) \<rparr>,
               velocity = \<lparr> x = Fin 0, y = Fin 0 \<rparr>,
               target = \<lparr> x = Fin (100 + 2 * ((w - 200) / 3)), y = Fin (h / 2 + 150) \<rparr> \<rparr> \<rparr>"
proof (intro conjI)
  show "p0Ref (handlePointerMove s container clientX clientY) = p0Ref s"
    by (simp add: handlePointerMove_def Let_def split: option.splits)
  show "p3Ref (handlePointerMove s container clientX clientY) = p3Ref s"
    by (simp add: handlePointerMove_def Let_def split: option.splits)
  show "p0Ref (fst (animate s ctx timestamp)) = p0Ref s"
    by (simp add: animate_def Let_def split: option.splits)
  show "p3Ref (fst (animate s ctx timestamp)) = p3Ref s"
    by (simp add: animate_def Let_def split: option.splits)
qed (simp_all add: handleResize_def initializePositions_def createSpringState_def Let_def)

section \<open>The frame scheduler\<close>

lemma animate_skip:
  "timestamp - lastRenderTimeRef s < frameIntervalRef s \<Longrightarrow>
   animate s ctx timestamp = (s, None)"
  by (simp add: animate_def Let_def split: option.splits)

lemma animate_fire:
  assumes "spring1Ref s = Some spring1" "spring2Ref s = Some spring2"
    and "\<not> timestamp - lastRenderTimeRef s < frameIntervalRef s"
  shows "lastRenderTimeRef (fst (animate s True timestamp)) =
           timestamp - ((timestamp - lastRenderTimeRef s) mod frameIntervalRef s)"
    and "lastTimeRef (fst (animate s True timestamp)) = timestamp"
    and "frameIntervalRef (fst (animate s True timestamp)) = frameIntervalRef s"
    and "map_option frame_dt (snd (animate s True timestamp)) =
           Some (Math_min (if js_truthy (lastTimeRef s)
                           then (timestamp - lastTimeRef s) / Fin 1000 else Fin 0.016)
                          (Fin 0.033))"
    and "spring1Ref (fst (animate s True timestamp)) =
           Some (updateSpring spring1 DEFAULT_SPRING_CONFIG
              (Math_min (if js_truthy (lastTimeRef s)
                         then (timestamp - lastTimeRef s) / Fin 1000 else Fin 0.016)
                        (Fin 0.033)))"
    and "spring2Ref (fst (animate s True timestamp)) =
           Some (updateSpring spring2 DEFAULT_SPRING_CONFIG
              (Math_min (if js_truthy (lastTimeRef s)
                         then (timestamp - lastTimeRef s) / Fin 1000 else Fin 0.016)
                        (Fin 0.033)))"
  using assms by (simp_all add: animate_def Let_def)

lemma run_ticks_skip:
  "animate s True t = (s, None) \<Longrightarrow> run_ticks s (t # ts) = run_ticks s ts"
  by simp

lemma run_ticks_fire:
  "map_option frame_dt (snd (animate s True t)) = Some d \<Longrightarrow>
   run_ticks s (t # ts) = (t, d) # run_ticks (fst (animate s True t)) ts"
  by (cases "animate s True t") (auto split: option.splits)

lemma run_ticks_60:
  assumes s1: "spring1Ref s = Some spring1" and s2: "spring2Ref s = Some spring2"
    and lr: "lastRenderTimeRef s = Fin 0" and lt: "lastTimeRef s = Fin 0"
    and iv: "frameIntervalRef s = Fin 1000 / Fin 60"
  shows "run_ticks s [Fin 0, Fin 5, Fin 10, Fin 17, Fin 34] =
           [(Fin 17, Fin 0.016), (Fin 34, Fin 0.017)]"
proof -
  let ?s = "fst (animate s True (Fin 17))"
  have k0: "animate s True (Fin 0) = (s, None)"
    by (rule animate_skip) (simp add: lr iv)
  have k5: "animate s True (Fin 5) = (s, None)"
    by (rule animate_skip) (simp add: lr iv)
  have k10: "animate s True (Fin 10) = (s, None)"
    by (rule animate_skip) (simp add: lr iv)
  have nf: "\<not> Fin 17 - lastRenderTimeRef s < frameIntervalRef s"
    by (simp add: lr iv)
  note f = animate_fire[OF s1 s2 nf]
  have dt17: "map_option frame_dt (snd (animate s True (Fin 17))) = Some (Fin 0.016)"
    unfolding f(4) by (simp add: lt)
  have lr17: "lastRenderTimeRef ?s = Fin (50 / 3)"
    unfolding f(1) by (simp add: lr iv)
  have lt17: "lastTimeRef ?s = Fin 17"
    unfolding f(2) by simp
  have iv17: "frameIntervalRef ?s = Fin (50 / 3)"
    unfolding f(3) by (simp add: iv)
  have nf': "\<not> Fin 34 - lastRenderTimeRef ?s < frameIntervalRef ?s"
    by (simp add: lr17 iv17)
  note g = animate_fire[OF f(5) f(6) nf']
  have dt34: "map_option frame_dt (snd (animate ?s True (Fin 34))) = Some (Fin 0.017)"
    unfolding g(4) by (simp add: lt17)
  show ?thesis
    unfolding run_ticks_skip[OF k0] run_ticks_skip[OF k5] run_ticks_skip[OF k10]
      run_ticks_fire[OF dt17] run_ticks_fire[OF dt34]
    by simp
qed

text \<open>
  C2. A call of the animation callback with \<open>timestamp - lastRenderTime < frameInterval\<close>
  changes nothing and draws nothing. Otherwise (with the canvas and both springs
  present) the tick fires, \<open>lastRenderTime\<close> becomes \<open>timestamp - ((timestamp -
  lastRenderTime) mod frameInterval)\<close>, \<open>lastTime\<close> becomes the timestamp, and the time
  step is the smaller of 0.033 and: \<open>(timestamp - lastTime) / 1000\<close> when \<open>lastTime\<close> is
  set, 0.016 when it is still the initial 0. On finite numbers that is
  \<open>min (timestamp - lastTime) 33 / 1000\<close>, and \<open>16 / 1000\<close> on the first tick. With a
  target rate of 60 and the signals 0, 5, 10, 17, 34 from a fresh scheduler, the ticks
  that fire are the one at 17, with time step 0.016, and the one at 34, with time step
  0.017.
\<close>

theorem frame_scheduler:
  "(timestamp - lastRenderTimeRef s < frameIntervalRef s \<longrightarrow>
      animate s ctx timestamp = (s, None))
   \<and> (spring1Ref s = Some spring1 \<and> spring2Ref s = Some spring2
       \<and> \<not> timestamp - lastRenderTimeRef s < frameIntervalRef s \<longrightarrow>
        lastRenderTimeRef (fst (animate s True timestamp)) =
          timestamp - ((timestamp - lastRenderTimeRef s) mod frameIntervalRef s)
        \<and> lastTimeRef (fst (animate s True timestamp)) = timestamp
        \<and> map_option frame_dt (snd (animate s True timestamp)) =
            Some (Math_min (if js_truthy (lastTimeRef s)
                            then (timestamp - lastTimeRef s) / Fin 1000 else Fin 0.016)
                           (Fin 0.033)))
   \<and> (lt \<noteq> 0 \<longrightarrow>
        Math_min (if js_truthy (Fin lt) then (Fin t - Fin lt) / Fin 1000 else Fin 0.016)
                 (Fin 0.033)
          = Fin (min (t - lt) 33 / 1000))
   \<and> Math_min (if js_truthy (Fin 0) then (Fin t - Fin 0) / Fin 1000 else Fin 0.016)
               (Fin 0.033)
        = Fin (16 / 1000)
   \<and> lastTimeRef (initialState targetFps) = Fin 0
   \<and> lastRenderTimeRef (initialState targetFps) = Fin 0
   \<and> frameIntervalRef (initialState targetFps) = Fin 1000 / targetFps
   \<and> (spring1Ref s = Some spring1 \<and> spring2Ref s = Some spring2
       \<and> lastRenderTimeRef s = Fin 0 \<and> lastTimeRef s = Fin 0
       \<and> frameIntervalRef s = Fin 1000 / Fin 60 \<longrightarrow>
        run_ticks s [Fin 0, Fin 5, Fin 10, Fin 17, Fin 34] =
          [(Fin 17, Fin 0.016), (Fin 34, Fin 0.017)])"
proof (intro conjI impI)
  assume "timestamp - lastRenderTimeRef s < frameIntervalRef s"
  then show "animate s ctx timestamp = (s, None)" by (rule animate_skip)
next
  assume a: "spring1Ref s = Some spring1 \<and> spring2Ref s = Some spring2
       \<and> \<not> timestamp - lastRenderTimeRef s < frameIntervalRef s"
  then have a1: "spring1Ref s = Some spring1" and a2: "spring2Ref s = Some spring2"
    and a3: "\<not> timestamp - lastRenderTimeRef s < frameIntervalRef s" by simp_all
  note f = animate_fire[OF a1 a2 a3]
  show "lastRenderTimeRef (fst (animate s True timestamp)) =
          timestamp - ((timestamp - lastRenderTimeRef s) mod frameIntervalRef s)"
    by (rule f(1))
  show "lastTimeRef (fst (animate s True timestamp)) = timestamp"
    by (rule f(2))
  show "map_option frame_dt (snd (animate s True timestamp)) =
            Some (Math_min (if js_truthy (lastTimeRef s)
                            then (timestamp - lastTimeRef s) / Fin 1000 else Fin 0.016)
                           (Fin 0.033))"
    by (rule f(4))
next
  assume "lt \<noteq> 0"
  then show "Math_min (if js_truthy (Fin lt) then (Fin t - Fin lt) / Fin 1000 else Fin 0.016)
                 (Fin 0.033)
          = Fin (min (t - lt) 33 / 1000)"
    by (simp add: min_def)
next
  show "Math_min (if js_truthy (Fin 0) then (Fin t - Fin 0) / Fin 1000 else Fin 0.016)
               (Fin 0.033)
        = Fin (16 / 1000)"
    by simp
next
  assume "spring1Ref s = Some spring1 \<and> spring2Ref s = Some spring2
       \<and> lastRenderTimeRef s = Fin 0 \<and> lastTimeRef s = Fin 0
       \<and> frameIntervalRef s = Fin 1000 / Fin 60"
  then show "run_ticks s [Fin 0, Fin 5, Fin 10, Fin 17, Fin 34] =
          [(Fin 17, Fin 0.016), (Fin 34, Fin 0.017)]"
    using run_ticks_60 by blast
qed (simp_all add: initialState_def)

theorem frame_scheduler_witness:
  "run_ticks
     (handleResize (initialState (Fin 60)) True
        (Some \<lparr> rect_left = Fin 0, rect_top = Fin 0,
                rect_width = Fin 800, rect_height = Fin 600 \<rparr>))
     [Fin 0, Fin 5, Fin 10, Fin 17, Fin 34]
   = [(Fin 17, Fin 0.016), (Fin 34, Fin 0.017)]"
proof -
  let ?s = "handleResize (initialState (Fin 60)) True
        (Some \<lparr> rect_left = Fin 0, rect_top = Fin 0,
                rect_width = Fin 800, rect_height = Fin 600 \<rparr>)"
  have h: "spring1Ref ?s = Some (createSpringState \<lparr> x = Fin 300, y = Fin 150 \<rparr>)
      \<and> spring2Ref ?s = Some (createSpringState \<lparr> x = Fin 500, y = Fin 450 \<rparr>)
      \<and> lastRenderTimeRef ?s = Fin 0 \<and> lastTimeRef ?s = Fin 0
      \<and> frameIntervalRef ?s = Fin 1000 / Fin 60"
    by (simp add: handleResize_def initializePositions_def initialState_def Let_def)
  from frame_scheduler[of _ ?s _ "createSpringState \<lparr> x = Fin 300, y = Fin 150 \<rparr>"
      "createSpringState \<lparr> x = Fin 500, y = Fin 450 \<rparr>"] h
  show ?thesis by blast
qed

end
